theory Spec2Isabelle
  imports Complex_Main "HOL-Library.Word"
begin

section \<open>JavaScript strings\<close>

text \<open>
  A JavaScript string is a sequence of UTF-16 code units. \<open>lit\<close> embeds an ASCII
  literal of the source.
\<close>

type_synonym jsstring = "16 word list"

definition lit :: "string \<Rightarrow> jsstring" where
  "lit cs = map of_char cs"

text \<open>
  \<open>String.prototype.trim\<close> strips the code units of ECMAScript's WhiteSpace and
  LineTerminator productions from both ends: TAB, LF, VT, FF, CR, SP, NBSP, U+1680,
  U+2000 to U+200A, U+2028, U+2029, U+202F, U+205F, U+3000 and U+FEFF.
\<close>

definition isWhiteSpace :: "16 word \<Rightarrow> bool" where
  "isWhiteSpace c \<longleftrightarrow>
     (0x0009 \<le> c \<and> c \<le> 0x000D) \<or> c = 0x0020 \<or> c = 0x00A0 \<or> c = 0x1680 \<or>
     (0x2000 \<le> c \<and> c \<le> 0x200A) \<or> c = 0x2028 \<or> c = 0x2029 \<or> c = 0x202F \<or>
     c = 0x205F \<or> c = 0x3000 \<or> c = 0xFEFF"

definition trim :: "jsstring \<Rightarrow> jsstring" where
  "trim s = rev (dropWhile isWhiteSpace (rev (dropWhile isWhiteSpace s)))"

text \<open>A string is truthy when it is not empty.\<close>

definition truthy_string :: "jsstring \<Rightarrow> bool" where
  "truthy_string s \<longleftrightarrow> s \<noteq> []"

text \<open>\<open>Number.prototype.toString\<close> on an integer: its decimal digits, with a sign.\<close>

fun digits :: "nat \<Rightarrow> jsstring" where
  "digits n = (if n < 10 then [of_nat (48 + n)] else digits (n div 10) @ [of_nat (48 + n mod 10)])"

declare digits.simps [simp del]

definition toString :: "int \<Rightarrow> jsstring" where
  "toString i = (if i < 0 then lit ''-'' @ digits (nat (- i)) else digits (nat i))"


section \<open>The query submission surface: \<open>components/chat-interface.tsx\<close>\<close>

text \<open>
  \<open>QueryHistoryItem\<close>: the item's \<open>id\<close> and \<open>text\<close> fields carry a prefix, as both
  names are taken in Isabelle. The timestamp is the clock reading of \<open>new Date()\<close> in
  milliseconds.
\<close>

record QueryHistoryItem =
  item_id :: jsstring
  item_text :: jsstring
  timestamp :: int

text \<open>
  The four state variables of \<open>ChatInterface\<close>. Its \<open>query\<close> and \<open>isLoading\<close> are
  prefixed, to keep them apart from the state variables of the same names in
  \<open>ResponseComparison\<close>.
\<close>

record ChatInterface =
  chat_query :: jsstring
  chat_isLoading :: bool
  queryHistory :: "QueryHistoryItem list"
  historyIndex :: int

definition chat_initial :: ChatInterface where
  "chat_initial = \<lparr>chat_query = [], chat_isLoading = False, queryHistory = [], historyIndex = - 1\<rparr>"

text \<open>The \<open>newQuery\<close> custom event, with its \<open>detail.query\<close>.\<close>

datatype signal = NewQuerySignal jsstring

text \<open>
  \<open>handleSubmit\<close>, given the readings of \<open>Date.now()\<close> and \<open>new Date()\<close>. It returns
  the state after the handler and the events it dispatched on \<open>window\<close>. The function
  is \<open>async\<close> without an \<open>await\<close>, so it runs to its end in one turn.
  \<open>window.dispatchEvent\<close> reports a listener's exception instead of rethrowing it, so
  the \<open>try\<close> body runs to its end and the \<open>finally\<close> block puts \<open>isLoading\<close> back.
\<close>

definition handleSubmit :: "int \<Rightarrow> int \<Rightarrow> ChatInterface \<Rightarrow> ChatInterface \<times> signal list" where
  "handleSubmit dateNow newDate s =
     (if \<not> truthy_string (trim (chat_query s)) then (s, [])
      else
        let newQueryItem = \<lparr>item_id = toString dateNow, item_text = trim (chat_query s),
                             timestamp = newDate\<rparr>
        in (s\<lparr>queryHistory := newQueryItem # take 19 (queryHistory s),
               historyIndex := - 1,
               chat_query := [],
               chat_isLoading := False\<rparr>,
            [NewQuerySignal (trim (chat_query s))]))"

text \<open>
  Reading \<open>queryHistory[i].text\<close>: outside the array the element is \<open>undefined\<close> and
  the property access throws a TypeError.
\<close>

datatype js_error = TypeError

definition history_text :: "QueryHistoryItem list \<Rightarrow> int \<Rightarrow> js_error + jsstring" where
  "history_text h i =
     (if 0 \<le> i \<and> i < int (length h) then Inr (item_text (h ! nat i)) else Inl TypeError)"

text \<open>
  \<open>navigateHistory\<close> is called by the two arrow buttons and by \<open>handleKeyDown\<close>, which
  calls it with "up" only while the input field is empty.
\<close>

datatype direction = Up | Down

definition navigateHistory :: "direction \<Rightarrow> ChatInterface \<Rightarrow> js_error + ChatInterface" where
  "navigateHistory d s =
     (if length (queryHistory s) = 0 then Inr s
      else (case d of
        Up \<Rightarrow>
          (let newIndex = (if historyIndex s < int (length (queryHistory s)) - 1
                           then historyIndex s + 1 else historyIndex s)
           in if newIndex \<ge> 0 \<and> newIndex < int (length (queryHistory s))
              then (case history_text (queryHistory s) newIndex of
                      Inl e \<Rightarrow> Inl e
                    | Inr t \<Rightarrow> Inr (s\<lparr>historyIndex := newIndex, chat_query := t\<rparr>))
              else Inr (s\<lparr>historyIndex := newIndex\<rparr>))
      | Down \<Rightarrow>
          (let newIndex = (if historyIndex s > 0 then historyIndex s - 1 else - 1)
           in if newIndex \<ge> 0
              then (case history_text (queryHistory s) newIndex of
                      Inl e \<Rightarrow> Inl e
                    | Inr t \<Rightarrow> Inr (s\<lparr>historyIndex := newIndex, chat_query := t\<rparr>))
              else Inr (s\<lparr>historyIndex := newIndex, chat_query := []\<rparr>))))"

text \<open>A sequence of navigation steps; an exception ends it.\<close>

fun navigate_all :: "direction list \<Rightarrow> ChatInterface \<Rightarrow> js_error + ChatInterface" where
  "navigate_all [] s = Inr s"
| "navigate_all (d # ds) s =
     (case navigateHistory d s of Inl e \<Rightarrow> Inl e | Inr s' \<Rightarrow> navigate_all ds s')"

text \<open>The cursor and the input field after a sequence of navigation steps.\<close>

definition after_steps :: "direction list \<Rightarrow> ChatInterface \<Rightarrow> js_error + int \<times> jsstring" where
  "after_steps ds s =
     (case navigate_all ds s of Inl e \<Rightarrow> Inl e | Inr s' \<Rightarrow> Inr (historyIndex s', chat_query s'))"

text \<open>The history \<open>["a", "b", "c"]\<close>, most recent first, under an empty input field.\<close>

definition abc_history :: "QueryHistoryItem list" where
  "abc_history =
     [\<lparr>item_id = lit ''1700000003000'', item_text = lit ''a'', timestamp = 1700000003000\<rparr>,
      \<lparr>item_id = lit ''1700000002000'', item_text = lit ''b'', timestamp = 1700000002000\<rparr>,
      \<lparr>item_id = lit ''1700000001000'', item_text = lit ''c'', timestamp = 1700000001000\<rparr>]"

definition abc_start :: ChatInterface where
  "abc_start = chat_initial\<lparr>queryHistory := abc_history\<rparr>"



section \<open>Values shared by the route and the dispatcher\<close>

text \<open>A value parsed from JSON text.\<close>

datatype json =
  JNull
| JBool bool
| JNumber rat
| JString jsstring
| JArray "json list"
| JObject "(jsstring \<times> json) list"

text \<open>
  A thrown value: an \<open>Error\<close> with its message, or a value that is not an \<open>Error\<close>,
  with what \<open>String\<close> makes of it.
\<close>

datatype thrown = Error jsstring | NonError jsstring

text \<open>\<open>response.ok\<close>: the status is in the range 200 to 299.\<close>

definition response_ok :: "nat \<Rightarrow> bool" where
  "response_ok st \<longleftrightarrow> 200 \<le> st \<and> st \<le> 299"


section \<open>The vector-only proxy route: \<open>app/api/query-vector-only/route.ts\<close>\<close>

text \<open>A response: its status, its JSON body and the headers the route sets itself.\<close>

record NextResponse =
  status :: nat
  body :: json
  headers :: "(jsstring \<times> jsstring) list"

text \<open>
  How the backend answers the route's \<open>fetch\<close>: the call rejects, or a response comes
  with a status and the outcome of \<open>response.text()\<close>.
\<close>

datatype backend_reply = BackendRejects thrown | BackendResponds nat "thrown + jsstring"

text \<open>
  What the route takes from its surroundings: the environment variable, the built-in
  functions \<open>encodeURIComponent\<close> (which throws on a lone surrogate) and \<open>JSON.parse\<close>
  (\<open>None\<close> when it throws), and the backend behind \<open>fetch\<close>, by URL.
\<close>

record route_env =
  API_BASE_URL :: "jsstring option"
  encodeURIComponent :: "jsstring \<Rightarrow> thrown + jsstring"
  JSON_parse :: "jsstring \<Rightarrow> json option"
  backend :: "jsstring \<Rightarrow> backend_reply"

text \<open>
  \<open>searchParams.get(name)\<close>: the value of the first pair with that name, or \<open>null\<close>.
\<close>

definition searchParams_get :: "(jsstring \<times> jsstring) list \<Rightarrow> jsstring \<Rightarrow> jsstring option" where
  "searchParams_get params name = map_of params name"

text \<open>
  The logging of \<open>data.summary\<close> in the inner \<open>try\<close>. Reading \<open>summary\<close> of \<open>null\<close>
  throws; a truthy \<open>summary\<close> that is not a string has no \<open>substring\<close> method, and the
  call throws. The result says whether the logging throws.
\<close>

fun truthy_json :: "json \<Rightarrow> bool" where
  "truthy_json JNull = False"
| "truthy_json (JBool b) = b"
| "truthy_json (JNumber n) = (n \<noteq> 0)"
| "truthy_json (JString t) = truthy_string t"
| "truthy_json (JArray xs) = True"
| "truthy_json (JObject kvs) = True"

fun log_summary_throws :: "json \<Rightarrow> bool" where
  "log_summary_throws JNull = True"
| "log_summary_throws (JObject kvs) =
     (case map_of kvs (lit ''summary'') of
        None \<Rightarrow> False
      | Some (JString t) \<Rightarrow> False
      | Some v \<Rightarrow> truthy_json v)"
| "log_summary_throws v = False"

definition fetch_failure :: "thrown \<Rightarrow> NextResponse" where
  "fetch_failure e =
     \<lparr>status = 500,
      body = JObject [(lit ''error'', JString (lit ''Failed to fetch from vector-only endpoint'')),
                      (lit ''details'', JString (case e of Error m \<Rightarrow> m | NonError r \<Rightarrow> r))],
      headers = []\<rparr>"

definition parse_failure :: NextResponse where
  "parse_failure =
     \<lparr>status = 500,
      body = JObject [(lit ''error'', JString (lit ''Failed to parse JSON response from backend''))],
      headers = []\<rparr>"

text \<open>\<open>GET\<close> returns its response and the URLs it fetched from the backend, in order.\<close>

definition bad_request :: NextResponse where
  "bad_request =
     \<lparr>status = 400,
      body = JObject [(lit ''error'', JString (lit ''Query parameter is required''))],
      headers = []\<rparr>"

text \<open>The part of \<open>GET\<close> after the response of the backend has been read as text.\<close>

definition relay :: "route_env \<Rightarrow> jsstring \<Rightarrow> NextResponse" where
  "relay env t =
     (case JSON_parse env t of
        None \<Rightarrow> parse_failure
      | Some data \<Rightarrow>
          if log_summary_throws data then parse_failure
          else \<lparr>status = 200, body = data,
                headers = [(lit ''Cache-Control'', lit ''no-store, max-age=0'')]\<rparr>)"

text \<open>The part of \<open>GET\<close> after its \<open>fetch\<close> has settled.\<close>

definition after_fetch :: "route_env \<Rightarrow> backend_reply \<Rightarrow> NextResponse" where
  "after_fetch env reply =
     (case reply of
        BackendRejects e \<Rightarrow> fetch_failure e
      | BackendResponds st txt \<Rightarrow>
          if \<not> response_ok st
          then fetch_failure (Error (lit ''Backend API responded with status: '' @ toString (int st)))
          else (case txt of Inl e \<Rightarrow> fetch_failure e | Inr t \<Rightarrow> relay env t))"

text \<open>\<open>GET\<close> returns its response and the URLs it fetched from the backend, in order.\<close>

definition GET :: "route_env \<Rightarrow> (jsstring \<times> jsstring) list \<Rightarrow> NextResponse \<times> jsstring list" where
  "GET env searchParams =
     (case searchParams_get searchParams (lit ''query'') of
        None \<Rightarrow> (bad_request, [])
      | Some query \<Rightarrow>
          if \<not> truthy_string query then (bad_request, [])
          else
            (let apiUrl = (case API_BASE_URL env of
                             None \<Rightarrow> lit ''http://localhost:8000''
                           | Some u \<Rightarrow> if truthy_string u then u else lit ''http://localhost:8000'')
             in (case encodeURIComponent env query of
                   Inl e \<Rightarrow> (fetch_failure e, [])
                 | Inr encoded \<Rightarrow>
                     (let url = apiUrl @ lit ''/query-with-vector-only?query='' @ encoded
                      in (after_fetch env (backend env url), [url])))))"

text \<open>An environment for examples: a backend that answers every URL with one summary.\<close>

definition example_env :: route_env where
  "example_env =
     \<lparr>API_BASE_URL = None,
      encodeURIComponent = (\<lambda>q. Inr q),
      JSON_parse = (\<lambda>t. Some (JObject [(lit ''summary'', JString t)])),
      backend = (\<lambda>url. BackendResponds 200 (Inr (lit ''ok'')))\<rparr>"



section \<open>The dual retrieval dispatcher: \<open>components/response-comparison.tsx\<close>\<close>

subsection \<open>Payloads and state\<close>

text \<open>
  The payload types the component declares. The fields \<open>query\<close>, \<open>summary\<close> and
  \<open>vector_results\<close> occur in both payloads and carry a prefix here, and \<open>text\<close> is
  \<open>result_text\<close>; a \<open>CypherResult\<close> is an open record, so a JSON value.
\<close>

record VectorResult =
  score :: jsstring
  result_text :: jsstring

record VectorOnlyResponse =
  v_query :: jsstring
  v_summary :: jsstring
  v_vector_results :: "VectorResult list"

record KGResponse =
  kg_query :: jsstring
  kg_summary :: jsstring
  cypher_query :: jsstring
  cypher_results_count :: int
  cypher_results :: "json list"
  kg_vector_results :: "VectorResult list"

text \<open>
  The types are erased when the component runs: what \<open>response.json()\<close> yields, and
  what the state holds, is a JSON value of any shape. These are the values of the
  declared shapes.
\<close>

definition VectorResult_json :: "VectorResult \<Rightarrow> json" where
  "VectorResult_json r =
     JObject [(lit ''score'', JString (score r)), (lit ''text'', JString (result_text r))]"

definition VectorOnlyResponse_json :: "VectorOnlyResponse \<Rightarrow> json" where
  "VectorOnlyResponse_json p =
     JObject [(lit ''query'', JString (v_query p)),
              (lit ''summary'', JString (v_summary p)),
              (lit ''vector_results'', JArray (map VectorResult_json (v_vector_results p)))]"

definition KGResponse_json :: "KGResponse \<Rightarrow> json" where
  "KGResponse_json p =
     JObject [(lit ''query'', JString (kg_query p)),
              (lit ''summary'', JString (kg_summary p)),
              (lit ''cypher_query'', JString (cypher_query p)),
              (lit ''cypher_results_count'', JNumber (of_int (cypher_results_count p))),
              (lit ''cypher_results'', JArray (cypher_results p)),
              (lit ''vector_results'', JArray (map VectorResult_json (kg_vector_results p)))]"

text \<open>
  The state variables of \<open>ResponseComparison\<close>. A response is the JSON value that was
  stored, \<open>JNull\<close> for \<open>null\<close>; for an error and a time, \<open>null\<close> is \<open>None\<close>.
\<close>

record ResponseComparison =
  query :: jsstring
  isLoading :: bool
  vectorResponse :: json
  kgResponse :: json
  vectorError :: "jsstring option"
  kgError :: "jsstring option"
  vectorTime :: "int option"
  kgTime :: "int option"
  vectorTab :: jsstring
  kgTab :: jsstring

definition initial :: ResponseComparison where
  "initial =
     \<lparr>query = [], isLoading = False, vectorResponse = JNull, kgResponse = JNull,
      vectorError = None, kgError = None, vectorTime = None, kgTime = None,
      vectorTab = lit ''summary'', kgTab = lit ''summary''\<rparr>"

subsection \<open>The handlers\<close>

text \<open>
  The state updates of \<open>handleQuery\<close>; the two calls it starts are in \<open>step\<close> below.
\<close>

definition handleQuery :: "jsstring \<Rightarrow> ResponseComparison \<Rightarrow> ResponseComparison" where
  "handleQuery newQuery s =
     s\<lparr>query := newQuery,
       isLoading := True,
       vectorResponse := JNull,
       kgResponse := JNull,
       vectorError := None,
       kgError := None\<rparr>"

text \<open>
  How a call's \<open>fetch\<close> settles: it rejects, or a response comes with a status and the
  outcome of \<open>response.json()\<close>, a thrown value or the parsed data. The data is not
  checked against the declared payload type, and may be \<open>null\<close>.
\<close>

datatype fetched = Rejected thrown | Responded nat "thrown + json"

text \<open>The message the \<open>catch\<close> blocks store.\<close>

definition error_message :: "thrown \<Rightarrow> jsstring" where
  "error_message e = (case e of Error m \<Rightarrow> m | NonError r \<Rightarrow> lit ''Unknown error'')"

text \<open>
  \<open>fetchVectorResponse\<close> from the point where its \<open>fetch\<close> has settled. No state is
  written between the two \<open>await\<close>s, so they are one step here. \<open>elapsed\<close> is the value
  of \<open>Math.round(performance.now() - startTime)\<close> at that point: the floating-point
  subtraction and its rounding are not modelled, and the event that settles the call
  carries the integer they give.
\<close>

definition fetchVectorResponse :: "fetched \<Rightarrow> int \<Rightarrow> ResponseComparison \<Rightarrow> ResponseComparison" where
  "fetchVectorResponse r elapsed s =
     (case r of
        Rejected e \<Rightarrow> s\<lparr>vectorError := Some (error_message e)\<rparr>
      | Responded st parsed \<Rightarrow>
          if \<not> response_ok st
          then s\<lparr>vectorError := Some (error_message (Error (lit ''API error: '' @ toString (int st))))\<rparr>
          else (case parsed of
                  Inl e \<Rightarrow> s\<lparr>vectorError := Some (error_message e)\<rparr>
                | Inr data \<Rightarrow> s\<lparr>vectorResponse := data, vectorTime := Some elapsed\<rparr>))"

text \<open>\<open>fetchKGResponse\<close> likewise; its \<open>finally\<close> block clears \<open>isLoading\<close> on every path.\<close>

definition fetchKGResponse :: "fetched \<Rightarrow> int \<Rightarrow> ResponseComparison \<Rightarrow> ResponseComparison" where
  "fetchKGResponse r elapsed s =
     (case r of
        Rejected e \<Rightarrow> s\<lparr>kgError := Some (error_message e), isLoading := False\<rparr>
      | Responded st parsed \<Rightarrow>
          if \<not> response_ok st
          then s\<lparr>kgError := Some (error_message (Error (lit ''API error: '' @ toString (int st)))),
                 isLoading := False\<rparr>
          else (case parsed of
                  Inl e \<Rightarrow> s\<lparr>kgError := Some (error_message e), isLoading := False\<rparr>
                | Inr data \<Rightarrow>
                    s\<lparr>kgResponse := data, kgTime := Some elapsed, isLoading := False\<rparr>))"

subsection \<open>The component with its outstanding calls\<close>

text \<open>
  A call that was started and has not settled: the query it was started for and the
  \<open>startTime\<close> it read.
\<close>

datatype call = VectorCall jsstring rat | KGCall jsstring rat

record dispatcher =
  component :: ResponseComparison
  outstanding :: "call list"

definition dispatcher_initial :: dispatcher where
  "dispatcher_initial = \<lparr>component = initial, outstanding = []\<rparr>"

text \<open>
  What can happen to the mounted component: a \<open>newQuery\<close> event arrives (with the two
  readings of \<open>performance.now()\<close> that the calls take as they start), an outstanding
  call settles (with the elapsed time the handler computes then), or the user changes a
  tab.
\<close>

datatype event =
  NewQuery jsstring rat rat
| VectorSettled jsstring rat fetched int
| KGSettled jsstring rat fetched int
| SetVectorTab jsstring
| SetKGTab jsstring

text \<open>One event; \<open>None\<close> when the event names a call that is not outstanding.\<close>

fun step :: "dispatcher \<Rightarrow> event \<Rightarrow> dispatcher option" where
  "step d (NewQuery q tv tk) =
     Some \<lparr>component = handleQuery q (component d),
           outstanding = outstanding d @ [VectorCall q tv, KGCall q tk]\<rparr>"
| "step d (VectorSettled q startTime r elapsed) =
     (if VectorCall q startTime \<in> set (outstanding d)
      then Some \<lparr>component = fetchVectorResponse r elapsed (component d),
                 outstanding = remove1 (VectorCall q startTime) (outstanding d)\<rparr>
      else None)"
| "step d (KGSettled q startTime r elapsed) =
     (if KGCall q startTime \<in> set (outstanding d)
      then Some \<lparr>component = fetchKGResponse r elapsed (component d),
                 outstanding = remove1 (KGCall q startTime) (outstanding d)\<rparr>
      else None)"
| "step d (SetVectorTab t) = Some (d\<lparr>component := (component d)\<lparr>vectorTab := t\<rparr>\<rparr>)"
| "step d (SetKGTab t) = Some (d\<lparr>component := (component d)\<lparr>kgTab := t\<rparr>\<rparr>)"

fun run :: "dispatcher \<Rightarrow> event list \<Rightarrow> dispatcher option" where
  "run d [] = Some d"
| "run d (e # es) = (case step d e of None \<Rightarrow> None | Some d' \<Rightarrow> run d' es)"

text \<open>
  The component tells a response or an error from none by truthiness alone. A side is
  pending when it has neither a truthy response nor a truthy error. The three state
  variables of a side are its response, its error and its time.
\<close>

definition truthy_error :: "jsstring option \<Rightarrow> bool" where
  "truthy_error err = (case err of None \<Rightarrow> False | Some m \<Rightarrow> truthy_string m)"

definition vectorPending :: "ResponseComparison \<Rightarrow> bool" where
  "vectorPending s \<longleftrightarrow> \<not> truthy_json (vectorResponse s) \<and> \<not> truthy_error (vectorError s)"

definition kgPending :: "ResponseComparison \<Rightarrow> bool" where
  "kgPending s \<longleftrightarrow> \<not> truthy_json (kgResponse s) \<and> \<not> truthy_error (kgError s)"

definition vectorSide :: "ResponseComparison \<Rightarrow> json \<times> jsstring option \<times> int option" where
  "vectorSide s = (vectorResponse s, vectorError s, vectorTime s)"

definition kgSide :: "ResponseComparison \<Rightarrow> json \<times> jsstring option \<times> int option" where
  "kgSide s = (kgResponse s, kgError s, kgTime s)"

text \<open>
  A run in which no query is submitted while a call is outstanding: every \<open>NewQuery\<close>
  finds the list of outstanding calls empty.
\<close>

fun unsuperseded :: "dispatcher \<Rightarrow> event list \<Rightarrow> bool" where
  "unsuperseded d [] = True"
| "unsuperseded d (e # es) =
     ((case e of NewQuery q tv tk \<Rightarrow> outstanding d = [] | _ \<Rightarrow> True) \<and>
      (case step d e of None \<Rightarrow> True | Some d' \<Rightarrow> unsuperseded d' es))"

fun is_NewQuery :: "event \<Rightarrow> bool" where
  "is_NewQuery (NewQuery q tv tk) = True"
| "is_NewQuery e = False"

text \<open>
  At most one call of each side is outstanding, and a side with an outstanding call is
  pending.
\<close>

fun is_VectorCall :: "call \<Rightarrow> bool" where
  "is_VectorCall (VectorCall q t) = True"
| "is_VectorCall (KGCall q t) = False"

fun is_KGCall :: "call \<Rightarrow> bool" where
  "is_KGCall (VectorCall q t) = False"
| "is_KGCall (KGCall q t) = True"

definition one_call_per_side :: "dispatcher \<Rightarrow> bool" where
  "one_call_per_side d \<longleftrightarrow>
     (filter is_VectorCall (outstanding d) = [] \<or>
      vectorPending (component d) \<and> length (filter is_VectorCall (outstanding d)) = 1) \<and>
     (filter is_KGCall (outstanding d) = [] \<or>
      kgPending (component d) \<and> length (filter is_KGCall (outstanding d)) = 1)"

subsection \<open>What is rendered\<close>

text \<open>
  \<open>formatTime\<close>: the number 0 is falsy, like \<open>null\<close>.
\<close>

definition formatTime :: "int option \<Rightarrow> jsstring" where
  "formatTime ms =
     (case ms of
        None \<Rightarrow> lit ''N/A''
      | Some n \<Rightarrow> if n \<noteq> 0 then toString n @ lit ''ms'' else lit ''N/A'')"

text \<open>
  The slot \<open>{vectorTime && (<Badge>...{formatTime(vectorTime)}</Badge>)}\<close> of a card
  header: nothing for \<open>null\<close>, the text of the number for 0, the badge otherwise.
\<close>

datatype latency_slot = NoBadge | NumberText jsstring | Badge jsstring

definition latency :: "int option \<Rightarrow> latency_slot" where
  "latency t =
     (case t of
        None \<Rightarrow> NoBadge
      | Some n \<Rightarrow> if n \<noteq> 0 then Badge (formatTime t) else NumberText (toString n))"

text \<open>
  The content of a card: the first branch of the conditional chain that applies. The
  tabs are given by the active tab and the response they read; what they show of it is
  not modelled.
\<close>

datatype card_content = Skeleton | ErrorAlert jsstring | Tabs jsstring json | Waiting

definition card :: "bool \<Rightarrow> json \<Rightarrow> jsstring option \<Rightarrow> jsstring \<Rightarrow> card_content" where
  "card loading response err tab =
     (if loading \<and> \<not> truthy_json response then Skeleton
      else (case err of
              Some m \<Rightarrow>
                if truthy_string m then ErrorAlert m
                else (if truthy_json response then Tabs tab response else Waiting)
            | None \<Rightarrow> (if truthy_json response then Tabs tab response else Waiting)))"

record comparison =
  shown_query :: jsstring
  spinner :: bool
  vector_latency :: latency_slot
  vector_content :: card_content
  kg_latency :: latency_slot
  kg_content :: card_content

datatype rendered = EmptyState | Comparison comparison

definition render :: "ResponseComparison \<Rightarrow> rendered" where
  "render s =
     (if \<not> truthy_string (query s) then EmptyState
      else Comparison
        \<lparr>shown_query = query s,
         spinner = isLoading s,
         vector_latency = latency (vectorTime s),
         vector_content = card (isLoading s) (vectorResponse s) (vectorError s) (vectorTab s),
         kg_latency = latency (kgTime s),
         kg_content = card (isLoading s) (kgResponse s) (kgError s) (kgTab s)\<rparr>)"

subsection \<open>Example data\<close>

definition vector_data :: "jsstring \<Rightarrow> json" where
  "vector_data q =
     VectorOnlyResponse_json
       \<lparr>v_query = q, v_summary = lit ''...'',
        v_vector_results = [\<lparr>score = lit ''0.91'', result_text = lit ''...''\<rparr>]\<rparr>"

definition kg_data :: "jsstring \<Rightarrow> json" where
  "kg_data q =
     KGResponse_json
       \<lparr>kg_query = q, kg_summary = lit ''...'', cypher_query = lit ''MATCH (d:Disease)...'',
        cypher_results_count = 2, cypher_results = [JObject [], JObject []],
        kg_vector_results = []\<rparr>"

definition q1 :: jsstring where
  "q1 = lit ''What is diabetes?''"

definition q2 :: jsstring where
  "q2 = lit ''What is asthma?''"

text \<open>The component, and the outstanding calls, after a run from the mounted state.\<close>

definition comp_after :: "event list \<Rightarrow> ResponseComparison option" where
  "comp_after es = map_option component (run dispatcher_initial es)"

definition calls_after :: "event list \<Rightarrow> call list option" where
  "calls_after es = map_option outstanding (run dispatcher_initial es)"

definition rendered_after :: "event list \<Rightarrow> rendered option" where
  "rendered_after es = map_option render (comp_after es)"

text \<open>
  The dispatcher after \<open>q1\<close> and then \<open>q2\<close> were submitted, with all four calls
  outstanding.
\<close>

definition superseded :: dispatcher where
  "superseded =
     \<lparr>component = handleQuery q2 (handleQuery q1 initial),
      outstanding = [VectorCall q1 0, KGCall q1 0, VectorCall q2 10, KGCall q2 10]\<rparr>"

text \<open>The dispatcher after \<open>q1\<close> was submitted and its vector call succeeded after 50 ms.\<close>

definition vector_done :: dispatcher where
  "vector_done =
     \<lparr>component = fetchVectorResponse (Responded 200 (Inr (vector_data q1))) 50
                    (handleQuery q1 initial),
      outstanding = [KGCall q1 0]\<rparr>"

text \<open>
  The dispatcher after \<open>q1\<close> and \<open>q2\<close> were submitted and three of the four calls have
  succeeded; the vector call of \<open>q1\<close> is outstanding.
\<close>

definition late_call :: dispatcher where
  "late_call =
     \<lparr>component =
        \<lparr>query = q2, isLoading = False, vectorResponse = vector_data q2,
         kgResponse = kg_data q2, vectorError = None, kgError = None,
         vectorTime = Some 30, kgTime = Some 40,
         vectorTab = lit ''summary'', kgTab = lit ''summary''\<rparr>,
      outstanding = [VectorCall q1 0]\<rparr>"

text \<open>The dispatcher after \<open>q1\<close> was submitted and its graph call succeeded after 120 ms.\<close>

definition kg_done :: dispatcher where
  "kg_done =
     \<lparr>component = fetchKGResponse (Responded 200 (Inr (kg_data q1))) 120
                    (handleQuery q1 initial),
      outstanding = [VectorCall q1 0]\<rparr>"


section \<open>Properties of the query submission surface\<close>

subsection \<open>Trimming\<close>

lemma trim_Nil_iff: "trim s = [] \<longleftrightarrow> (\<forall>c\<in>set s. isWhiteSpace c)"
proof
  assume "trim s = []"
  then have "dropWhile isWhiteSpace (rev (dropWhile isWhiteSpace s)) = []"
    by (simp add: trim_def)
  then have all: "\<forall>c\<in>set (dropWhile isWhiteSpace s). isWhiteSpace c"
    by simp
  show "\<forall>c\<in>set s. isWhiteSpace c"
  proof (cases "dropWhile isWhiteSpace s")
    case Nil
    then show ?thesis by simp
  next
    case (Cons x xs)
    then have "\<not> isWhiteSpace x" using hd_dropWhile[of isWhiteSpace s] by simp
    with all Cons show ?thesis by simp
  qed
next
  assume "\<forall>c\<in>set s. isWhiteSpace c"
  then have "dropWhile isWhiteSpace s = []" by simp
  then have "trim s = rev (dropWhile isWhiteSpace (rev []))" by (simp only: trim_def)
  then show "trim s = []" by simp
qed

lemma trim_X: "trim (lit '' X '') = lit ''X''"
  by (simp add: trim_def lit_def isWhiteSpace_def)

lemma trim_blank: "trim (lit ''  '') = []"
  by (simp add: trim_def lit_def isWhiteSpace_def)

lemma toString_example: "toString 1700000004000 = lit ''1700000004000''"
  by (simp add: toString_def lit_def digits.simps)

subsection \<open>Submission\<close>

text \<open>
  C5. When the trimmed input is empty (the input is empty or holds white space only),
  \<open>handleSubmit\<close> changes nothing: the history and the input field are as before, and no
  event is dispatched.
\<close>

theorem handleSubmit_blank:
  assumes "trim (chat_query s) = []"
  shows "handleSubmit dateNow newDate s = (s, [])
         \<and> queryHistory (fst (handleSubmit dateNow newDate s)) = queryHistory s
         \<and> chat_query (fst (handleSubmit dateNow newDate s)) = chat_query s
         \<and> snd (handleSubmit dateNow newDate s) = []"
  using assms by (simp add: handleSubmit_def truthy_string_def)

theorem handleSubmit_blank_witness:
  "trim (chat_query (abc_start\<lparr>chat_query := lit ''  ''\<rparr>)) = [] \<and>
   handleSubmit 1700000004000 1700000004001 (abc_start\<lparr>chat_query := lit ''  ''\<rparr>) =
     (abc_start\<lparr>chat_query := lit ''  ''\<rparr>, [])"
proof -
  have b: "trim (chat_query (abc_start\<lparr>chat_query := lit ''  ''\<rparr>)) = []"
    by (simp add: trim_blank)
  show ?thesis
    using handleSubmit_blank [OF b, of 1700000004000 1700000004001] b by simp
qed

text \<open>
  C6. When the trimmed input \<open>X.trim()\<close> is not empty, \<open>handleSubmit\<close> puts a new item
  with that text in front of the first 19 items of the old history, dispatches one event
  carrying \<open>X.trim()\<close>, and the new history has \<open>min 20 (n + 1)\<close> items, so never more
  than 20.
\<close>

theorem handleSubmit_nonblank:
  assumes "trim (chat_query s) \<noteq> []"
  shows "queryHistory (fst (handleSubmit dateNow newDate s)) =
           \<lparr>item_id = toString dateNow, item_text = trim (chat_query s), timestamp = newDate\<rparr>
             # take 19 (queryHistory s)
         \<and> item_text (hd (queryHistory (fst (handleSubmit dateNow newDate s)))) = trim (chat_query s)
         \<and> snd (handleSubmit dateNow newDate s) = [NewQuerySignal (trim (chat_query s))]
         \<and> length (queryHistory (fst (handleSubmit dateNow newDate s))) = min 20 (length (queryHistory s) + 1)
         \<and> length (queryHistory (fst (handleSubmit dateNow newDate s))) \<le> 20"
  using assms by (simp add: handleSubmit_def truthy_string_def Let_def min_def)

theorem handleSubmit_nonblank_witness:
  "trim (chat_query (abc_start\<lparr>chat_query := lit '' X ''\<rparr>)) \<noteq> [] \<and>
   queryHistory (fst (handleSubmit 1700000004000 1700000004001 (abc_start\<lparr>chat_query := lit '' X ''\<rparr>))) =
     \<lparr>item_id = lit ''1700000004000'', item_text = lit ''X'', timestamp = 1700000004001\<rparr> # abc_history \<and>
   snd (handleSubmit 1700000004000 1700000004001 (abc_start\<lparr>chat_query := lit '' X ''\<rparr>)) =
     [NewQuerySignal (lit ''X'')]"
proof -
  have n: "trim (chat_query (abc_start\<lparr>chat_query := lit '' X ''\<rparr>)) \<noteq> []"
    by (simp add: trim_X) (simp add: lit_def)
  show ?thesis
    using handleSubmit_nonblank [OF n, of 1700000004000 1700000004001] n
    by (simp add: trim_X toString_example abc_start_def abc_history_def)
qed

text \<open>After \<open>handleSubmit\<close> the cursor is in range again, whatever it was.\<close>

lemma handleSubmit_cursor:
  assumes "- 1 \<le> historyIndex s" "historyIndex s \<le> int (length (queryHistory s)) - 1"
  shows "- 1 \<le> historyIndex (fst (handleSubmit dateNow newDate s))
         \<and> historyIndex (fst (handleSubmit dateNow newDate s))
             \<le> int (length (queryHistory (fst (handleSubmit dateNow newDate s)))) - 1"
  using assms by (simp add: handleSubmit_def Let_def)

subsection \<open>History navigation\<close>

text \<open>
  C7. On the history \<open>["a", "b", "c"]\<close> with an empty input field and the cursor at
  \<open>-1\<close>: the steps "up" give \<open>"a"\<close>, \<open>"b"\<close>, \<open>"c"\<close> and then stay at \<open>"c"\<close> (cursor 2);
  the steps "down" from there give \<open>"b"\<close>, \<open>"a"\<close>, the empty string (cursor \<open>-1\<close>), and
  then stay there.
\<close>

theorem history_scenario:
  "chat_query abc_start = [] \<and> historyIndex abc_start = - 1 \<and>
   after_steps [Up] abc_start = Inr (0, lit ''a'') \<and>
   after_steps [Up, Up] abc_start = Inr (1, lit ''b'') \<and>
   after_steps [Up, Up, Up] abc_start = Inr (2, lit ''c'') \<and>
   after_steps [Up, Up, Up, Up] abc_start = Inr (2, lit ''c'') \<and>
   after_steps [Up, Up, Up, Up, Up] abc_start = Inr (2, lit ''c'') \<and>
   after_steps [Up, Up, Up, Up, Up, Down] abc_start = Inr (1, lit ''b'') \<and>
   after_steps [Up, Up, Up, Up, Up, Down, Down] abc_start = Inr (0, lit ''a'') \<and>
   after_steps [Up, Up, Up, Up, Up, Down, Down, Down] abc_start = Inr (- 1, []) \<and>
   after_steps [Up, Up, Up, Up, Up, Down, Down, Down, Down] abc_start = Inr (- 1, [])"
  by (simp add: after_steps_def abc_start_def abc_history_def chat_initial_def
      navigateHistory_def history_text_def)

text \<open>One step keeps a cursor that is in range in range, and reads inside the history.\<close>

lemma navigateHistory_in_range:
  assumes "- 1 \<le> historyIndex s" "historyIndex s \<le> int (length (queryHistory s)) - 1"
  shows "\<exists>s'. navigateHistory d s = Inr s' \<and> queryHistory s' = queryHistory s
           \<and> - 1 \<le> historyIndex s' \<and> historyIndex s' \<le> int (length (queryHistory s)) - 1
           \<and> (queryHistory s = [] \<longrightarrow> s' = s)"
  using assms
  by (cases d) (auto simp: navigateHistory_def history_text_def Let_def)

text \<open>
  C10. From a cursor in \<open>[-1, n - 1]\<close> (the initial cursor \<open>-1\<close> is), every sequence of
  "up" and "down" steps on a history of length \<open>n\<close> runs without a read outside the
  history (no step throws), leaves the history as it is and the cursor in
  \<open>[-1, n - 1]\<close>; on an empty history the state, so the cursor and the input field, is
  unchanged.
\<close>

theorem navigate_all_in_range:
  assumes "- 1 \<le> historyIndex s" "historyIndex s \<le> int (length (queryHistory s)) - 1"
  shows "\<exists>s'. navigate_all ds s = Inr s' \<and> queryHistory s' = queryHistory s
           \<and> - 1 \<le> historyIndex s' \<and> historyIndex s' \<le> int (length (queryHistory s)) - 1
           \<and> (queryHistory s = [] \<longrightarrow> s' = s)"
  using assms
proof (induction ds arbitrary: s)
  case Nil
  then show ?case by simp
next
  case (Cons d ds)
  from navigateHistory_in_range [OF Cons.prems, of d]
  obtain s1 where s1: "navigateHistory d s = Inr s1" "queryHistory s1 = queryHistory s"
    "- 1 \<le> historyIndex s1" "historyIndex s1 \<le> int (length (queryHistory s)) - 1"
    "queryHistory s = [] \<longrightarrow> s1 = s"
    by blast
  from Cons.IH [of s1] s1
  obtain s2 where s2: "navigate_all ds s1 = Inr s2" "queryHistory s2 = queryHistory s1"
    "- 1 \<le> historyIndex s2" "historyIndex s2 \<le> int (length (queryHistory s1)) - 1"
    "queryHistory s1 = [] \<longrightarrow> s2 = s1"
    by auto
  from s1 s2 show ?case by simp
qed

theorem navigate_all_in_range_witness:
  "- 1 \<le> historyIndex abc_start \<and>
   historyIndex abc_start \<le> int (length (queryHistory abc_start)) - 1 \<and>
   (\<exists>s'. navigate_all [Up, Up, Up, Up, Down] abc_start = Inr s' \<and> historyIndex s' = 1)"
proof -
  have h: "- 1 \<le> historyIndex abc_start"
    "historyIndex abc_start \<le> int (length (queryHistory abc_start)) - 1"
    by (simp_all add: abc_start_def abc_history_def chat_initial_def)
  from navigate_all_in_range [OF h, of "[Up, Up, Up, Up, Down]"]
  obtain s' where "navigate_all [Up, Up, Up, Up, Down] abc_start = Inr s'" by blast
  moreover have "navigate_all [Up, Up, Up, Up, Down] abc_start =
      Inr (abc_start\<lparr>historyIndex := 1, chat_query := lit ''b''\<rparr>)"
    by (simp add: abc_start_def abc_history_def chat_initial_def navigateHistory_def
        history_text_def)
  ultimately show ?thesis using h by simp
qed


section \<open>Properties of the proxy route\<close>

lemma query_not_t: "lit ''query'' \<noteq> lit ''t''"
  by (simp add: lit_def)

text \<open>
  C9. When the search parameters hold no \<open>query\<close>, or the first \<open>query\<close> is the empty
  string, \<open>GET\<close> answers with status 400 and the body
  \<open>{"error": "Query parameter is required"}\<close>, and fetches nothing from the backend,
  whatever the environment.
\<close>

theorem GET_missing_query:
  assumes "searchParams_get searchParams (lit ''query'') = None
           \<or> searchParams_get searchParams (lit ''query'') = Some []"
  shows "GET env searchParams =
           (\<lparr>status = 400,
             body = JObject [(lit ''error'', JString (lit ''Query parameter is required''))],
             headers = []\<rparr>, [])"
  using assms by (auto simp: GET_def truthy_string_def bad_request_def)

theorem GET_missing_query_witness:
  "searchParams_get [(lit ''t'', lit ''1700000000000'')] (lit ''query'') = None \<and>
   searchParams_get [(lit ''query'', []), (lit ''query'', lit ''flu'')] (lit ''query'') = Some [] \<and>
   fst (GET example_env [(lit ''t'', lit ''1700000000000'')]) = bad_request \<and>
   snd (GET example_env [(lit ''t'', lit ''1700000000000'')]) = [] \<and>
   GET example_env [(lit ''query'', []), (lit ''query'', lit ''flu'')] = (bad_request, [])"
proof -
  have a: "searchParams_get [(lit ''t'', lit ''1700000000000'')] (lit ''query'') = None"
    by (simp add: searchParams_get_def query_not_t)
  have b: "searchParams_get [(lit ''query'', []), (lit ''query'', lit ''flu'')] (lit ''query'') = Some []"
    by (simp add: searchParams_get_def)
  show ?thesis
    using GET_missing_query [of "[(lit ''t'', lit ''1700000000000'')]" example_env]
      GET_missing_query [of "[(lit ''query'', []), (lit ''query'', lit ''flu'')]" example_env] a b
    by (simp add: bad_request_def)
qed

text \<open>With a query, the same environment is asked and its answer relayed.\<close>

lemma GET_example:
  "GET example_env [(lit ''query'', lit ''flu'')] =
     (\<lparr>status = 200, body = JObject [(lit ''summary'', JString (lit ''ok''))],
       headers = [(lit ''Cache-Control'', lit ''no-store, max-age=0'')]\<rparr>,
      [lit ''http://localhost:8000/query-with-vector-only?query=flu''])"
  by (simp add: GET_def example_env_def searchParams_get_def truthy_string_def after_fetch_def
      relay_def response_ok_def)
     (simp add: lit_def)


section \<open>Properties of the dispatcher\<close>

subsection \<open>Evaluation\<close>

lemmas dispatch_eval =
  comp_after_def calls_after_def rendered_after_def dispatcher_initial_def initial_def
  handleQuery_def fetchVectorResponse_def fetchKGResponse_def response_ok_def
  error_message_def

lemma q2_truthy: "truthy_string q2"
  by (simp add: truthy_string_def q2_def lit_def)

lemma vector_data_truthy: "truthy_json (vector_data q)"
  by (simp add: vector_data_def VectorOnlyResponse_json_def)

lemma kg_data_truthy: "truthy_json (kg_data q)"
  by (simp add: kg_data_def KGResponse_json_def)

lemma ms50: "toString 50 @ lit ''ms'' = lit ''50ms''"
  by (simp add: toString_def lit_def digits.simps)

lemma ms120: "toString 120 @ lit ''ms'' = lit ''120ms''"
  by (simp add: toString_def lit_def digits.simps)

lemma api500: "lit ''API error: '' @ toString 500 = lit ''API error: 500''"
  by (simp add: toString_def lit_def digits.simps)

lemma api500_truthy: "truthy_string (lit ''API error: 500'')"
  by (simp add: truthy_string_def lit_def)

lemma run_superseded: "run dispatcher_initial [NewQuery q1 0 0, NewQuery q2 10 10] = Some superseded"
  by (simp add: dispatcher_initial_def superseded_def)

lemma run_vector_done:
  "run dispatcher_initial
     [NewQuery q1 0 0, VectorSettled q1 0 (Responded 200 (Inr (vector_data q1))) 50] =
   Some vector_done"
  by (simp add: dispatcher_initial_def vector_done_def)

lemma run_kg_done:
  "run dispatcher_initial
     [NewQuery q1 0 0, KGSettled q1 0 (Responded 200 (Inr (kg_data q1))) 120] =
   Some kg_done"
  by (simp add: dispatcher_initial_def kg_done_def)

lemma run_late_call:
  "run dispatcher_initial
     [NewQuery q1 0 0, NewQuery q2 10 10,
      VectorSettled q2 10 (Responded 200 (Inr (vector_data q2))) 30,
      KGSettled q1 0 (Responded 200 (Inr (kg_data q1))) 35,
      KGSettled q2 10 (Responded 200 (Inr (kg_data q2))) 40] =
   Some late_call"
  by (simp add: dispatch_eval late_call_def)

subsection \<open>What each handler writes\<close>

lemma handleQuery_resets:
  "query (handleQuery q s) = q \<and> isLoading (handleQuery q s) \<and>
   vectorPending (handleQuery q s) \<and> kgPending (handleQuery q s)"
  by (simp add: handleQuery_def vectorPending_def kgPending_def truthy_error_def)

lemma handleQuery_keeps_times:
  "vectorTime (handleQuery q s) = vectorTime s \<and> kgTime (handleQuery q s) = kgTime s"
  by (simp add: handleQuery_def)

lemma fetchVectorResponse_frame:
  "query (fetchVectorResponse r elapsed s) = query s \<and>
   isLoading (fetchVectorResponse r elapsed s) = isLoading s \<and>
   kgSide (fetchVectorResponse r elapsed s) = kgSide s \<and>
   kgPending (fetchVectorResponse r elapsed s) = kgPending s"
  by (simp add: fetchVectorResponse_def kgSide_def kgPending_def
      split: fetched.split sum.split)

lemma fetchKGResponse_frame:
  "query (fetchKGResponse r elapsed s) = query s \<and>
   \<not> isLoading (fetchKGResponse r elapsed s) \<and>
   vectorSide (fetchKGResponse r elapsed s) = vectorSide s \<and>
   vectorPending (fetchKGResponse r elapsed s) = vectorPending s"
  by (simp add: fetchKGResponse_def vectorSide_def vectorPending_def
      split: fetched.split sum.split)





subsection \<open>Calls of a superseded query\<close>




subsection \<open>The loading flag\<close>

text \<open>
  C2 at a run the component can make: \<open>q1\<close> is submitted and the graph call succeeds
  first, after 120 ms. The vector call is still outstanding and the vector side is
  pending, yet \<open>isLoading\<close> is false: \<open>fetchKGResponse\<close> clears it in its \<open>finally\<close>
  block, and \<open>fetchVectorResponse\<close> never looks at it.
\<close>

theorem loading_cleared_by_graph_side:
  "comp_after [NewQuery q1 0 0, KGSettled q1 0 (Responded 200 (Inr (kg_data q1))) 120] =
     Some \<lparr>query = q1, isLoading = False, vectorResponse = JNull, kgResponse = kg_data q1,
           vectorError = None, kgError = None, vectorTime = None, kgTime = Some 120,
           vectorTab = lit ''summary'', kgTab = lit ''summary''\<rparr> \<and>
   calls_after [NewQuery q1 0 0, KGSettled q1 0 (Responded 200 (Inr (kg_data q1))) 120] =
     Some [VectorCall q1 0] \<and>
   map_option vectorPending
     (comp_after [NewQuery q1 0 0, KGSettled q1 0 (Responded 200 (Inr (kg_data q1))) 120]) =
     Some True \<and>
   map_option isLoading
     (comp_after [NewQuery q1 0 0, KGSettled q1 0 (Responded 200 (Inr (kg_data q1))) 120]) =
     Some False"
  by (simp add: dispatch_eval vectorPending_def truthy_error_def)

text \<open>
  What does hold of the flag in every state the mounted component reaches: while
  \<open>isLoading\<close> is true the graph side is pending.
\<close>

lemma loading_step:
  assumes "isLoading (component d) \<longrightarrow> kgPending (component d)" "step d e = Some d'"
  shows "isLoading (component d') \<longrightarrow> kgPending (component d')"
proof (cases e)
  case (VectorSettled q t r elapsed)
  with assms(2) have "component d' = fetchVectorResponse r elapsed (component d)"
    by (auto split: if_splits)
  with assms(1) fetchVectorResponse_frame [of r elapsed "component d"] show ?thesis
    by simp
next
  case (KGSettled q t r elapsed)
  with assms(2) have "component d' = fetchKGResponse r elapsed (component d)"
    by (auto split: if_splits)
  with fetchKGResponse_frame [of r elapsed "component d"] show ?thesis
    by simp
qed (use assms in \<open>auto simp: handleQuery_def kgPending_def truthy_error_def\<close>)

lemma loading_implies_kg_pending:
  assumes "run d es = Some d'" "isLoading (component d) \<longrightarrow> kgPending (component d)"
  shows "isLoading (component d') \<longrightarrow> kgPending (component d')"
  using assms
proof (induction es arbitrary: d)
  case Nil
  then show ?case by simp
next
  case (Cons e es)
  from Cons.prems(1) obtain d1 where d1: "step d e = Some d1" "run d1 es = Some d'"
    by (auto split: option.splits)
  from loading_step [OF Cons.prems(2) d1(1)] Cons.IH [OF d1(2)] show ?case by blast
qed

subsection \<open>What a new query resets\<close>

text \<open>
  C3 at a run the component can make: both calls of \<open>q1\<close> succeed, after 50 ms and
  120 ms, and \<open>q2\<close> is submitted. \<open>handleQuery\<close> sets the query and clears both
  responses and both errors, but the two times of \<open>q1\<close> are still in the state.
\<close>

theorem times_survive_new_query:
  "comp_after [NewQuery q1 0 0,
               VectorSettled q1 0 (Responded 200 (Inr (vector_data q1))) 50,
               KGSettled q1 0 (Responded 200 (Inr (kg_data q1))) 120,
               NewQuery q2 200 200] =
     Some \<lparr>query = q2, isLoading = True, vectorResponse = JNull, kgResponse = JNull,
           vectorError = None, kgError = None, vectorTime = Some 50, kgTime = Some 120,
           vectorTab = lit ''summary'', kgTab = lit ''summary''\<rparr>"
  by (simp add: dispatch_eval)

subsection \<open>The latency badge\<close>

text \<open>
  C8 at a run the component can make: both calls of \<open>q1\<close> succeed, after 50 ms and
  120 ms, and \<open>q2\<close> is submitted. While both sides of \<open>q2\<close> are pending, the cards show
  the badges \<open>50ms\<close> and \<open>120ms\<close> of \<open>q1\<close>; and after both calls of \<open>q2\<close> have failed
  with status 500, the cards show the error under the same badges.
\<close>

theorem stale_latency_badge:
  "rendered_after [NewQuery q1 0 0,
               VectorSettled q1 0 (Responded 200 (Inr (vector_data q1))) 50,
               KGSettled q1 0 (Responded 200 (Inr (kg_data q1))) 120,
               NewQuery q2 200 200] =
     Some (Comparison \<lparr>shown_query = q2, spinner = True,
                        vector_latency = Badge (lit ''50ms''), vector_content = Skeleton,
                        kg_latency = Badge (lit ''120ms''), kg_content = Skeleton\<rparr>) \<and>
   rendered_after [NewQuery q1 0 0,
               VectorSettled q1 0 (Responded 200 (Inr (vector_data q1))) 50,
               KGSettled q1 0 (Responded 200 (Inr (kg_data q1))) 120,
               NewQuery q2 200 200,
               VectorSettled q2 200 (Responded 500 (Inr (vector_data q2))) 30,
               KGSettled q2 200 (Responded 500 (Inr (kg_data q2))) 40] =
     Some (Comparison \<lparr>shown_query = q2, spinner = False,
                        vector_latency = Badge (lit ''50ms''),
                        vector_content = ErrorAlert (lit ''API error: 500''),
                        kg_latency = Badge (lit ''120ms''),
                        kg_content = ErrorAlert (lit ''API error: 500'')\<rparr>)"
  by (simp add: dispatch_eval render_def latency_def formatTime_def card_def
      q2_truthy ms50 ms120 api500 api500_truthy)

text \<open>
  A success whose elapsed time rounds to 0 gets no badge: the slot holds the number 0,
  which is rendered as text.
\<close>

lemma zero_elapsed_no_badge:
  "rendered_after [NewQuery q2 200 200,
               VectorSettled q2 200 (Responded 200 (Inr (vector_data q2))) 0] =
     Some (Comparison \<lparr>shown_query = q2, spinner = True,
                        vector_latency = NumberText (lit ''0''),
                        vector_content = Tabs (lit ''summary'') (vector_data q2),
                        kg_latency = NoBadge, kg_content = Skeleton\<rparr>)"
  by (simp add: dispatch_eval render_def latency_def formatTime_def card_def
      q2_truthy vector_data_truthy)
     (simp add: toString_def lit_def digits.simps)

text \<open>For a time that is not 0, the badge holds the decimal digits followed by \<open>ms\<close>.\<close>

lemma latency_badge:
  assumes "n \<noteq> 0"
  shows "latency (Some n) = Badge (toString n @ lit ''ms'')"
  using assms by (simp add: latency_def formatTime_def)

subsection \<open>A resolved side\<close>

text \<open>
  C4, as the claim states it, fails: \<open>q1\<close> is submitted, then \<open>q2\<close> while the calls of
  \<open>q1\<close> are outstanding. The vector call of \<open>q2\<close>, the current query, succeeds; then
  the vector call of \<open>q1\<close> succeeds, an event that is not a new query, and the vector
  side changes from the payload of \<open>q2\<close> to that of \<open>q1\<close>.
\<close>

theorem resolved_side_overwritten_counterexample:
  "map_option vectorSide (comp_after [NewQuery q1 0 0, NewQuery q2 10 10,
               VectorSettled q2 10 (Responded 200 (Inr (vector_data q2))) 30]) =
     Some (vector_data q2, None, Some 30) \<and>
   \<not> is_NewQuery (VectorSettled q1 0 (Responded 200 (Inr (vector_data q1))) 60) \<and>
   map_option vectorSide (comp_after [NewQuery q1 0 0, NewQuery q2 10 10,
               VectorSettled q2 10 (Responded 200 (Inr (vector_data q2))) 30,
               VectorSettled q1 0 (Responded 200 (Inr (vector_data q1))) 60]) =
     Some (vector_data q1, None, Some 60)"
  by (simp add: dispatch_eval vectorSide_def)

text \<open>
  An outstanding call of a superseded query can also return a resolved side to pending:
  here the vector call of \<open>q1\<close> answers 200 with the body \<open>null\<close> after both sides of
  \<open>q2\<close> have succeeded.
\<close>

lemma late_null_returns_to_pending:
  "\<not> vectorPending (component late_call) \<and>
   step late_call (VectorSettled q1 0 (Responded 200 (Inr JNull)) 60) =
     Some \<lparr>component = (component late_call)\<lparr>vectorResponse := JNull, vectorTime := Some 60\<rparr>,
           outstanding = []\<rparr> \<and>
   vectorPending ((component late_call)\<lparr>vectorResponse := JNull, vectorTime := Some 60\<rparr>)"
  by (simp add: late_call_def vectorPending_def truthy_error_def vector_data_truthy
      fetchVectorResponse_def response_ok_def)

text \<open>
  The invariant \<open>one_call_per_side\<close> holds whenever no call is outstanding, and every
  event keeps it, as long as a new query finds no call outstanding.
\<close>

lemma one_call_per_side_idle:
  assumes "outstanding d = []"
  shows "one_call_per_side d"
  using assms by (simp add: one_call_per_side_def)

lemma one_call_per_side_initial: "one_call_per_side dispatcher_initial"
  by (simp add: one_call_per_side_idle dispatcher_initial_def)

lemma remove1_single:
  assumes "c \<in> set xs" "length xs = 1"
  shows "remove1 c xs = []"
  using assms by (cases xs) auto

lemma filter_nonempty:
  assumes "c \<in> set xs" "P c"
  shows "filter P xs \<noteq> []"
  using assms by (auto simp: filter_empty_conv)

lemma vector_call_none:
  assumes "filter is_VectorCall (outstanding d) = []"
  shows "VectorCall q t \<notin> set (outstanding d)"
proof
  assume "VectorCall q t \<in> set (outstanding d)"
  then have "filter is_VectorCall (outstanding d) \<noteq> []" by (rule filter_nonempty) simp
  with assms show False by simp
qed

lemma kg_call_none:
  assumes "filter is_KGCall (outstanding d) = []"
  shows "KGCall q t \<notin> set (outstanding d)"
proof
  assume "KGCall q t \<in> set (outstanding d)"
  then have "filter is_KGCall (outstanding d) \<noteq> []" by (rule filter_nonempty) simp
  with assms show False by simp
qed

lemma one_call_per_side_step:
  assumes inv: "one_call_per_side d" and st: "step d e = Some d'"
    and nq: "is_NewQuery e \<longrightarrow> outstanding d = []"
  shows "one_call_per_side d'"
proof (cases e)
  case (NewQuery q tv tk)
  with st nq show ?thesis
    by (auto simp: one_call_per_side_def handleQuery_def vectorPending_def kgPending_def
        truthy_error_def)
next
  case (VectorSettled q t r elapsed)
  with st have c: "VectorCall q t \<in> set (outstanding d)"
    and d': "d' = \<lparr>component = fetchVectorResponse r elapsed (component d),
                   outstanding = remove1 (VectorCall q t) (outstanding d)\<rparr>"
    by (auto split: if_splits)
  from c have cf: "VectorCall q t \<in> set (filter is_VectorCall (outstanding d))" by simp
  from c have "filter is_VectorCall (outstanding d) \<noteq> []" by (rule filter_nonempty) simp
  with inv have "length (filter is_VectorCall (outstanding d)) = 1"
    by (simp add: one_call_per_side_def)
  from remove1_single [OF cf this]
  have v: "filter is_VectorCall (remove1 (VectorCall q t) (outstanding d)) = []"
    by (simp only: filter_remove1)
  have k: "filter is_KGCall (remove1 (VectorCall q t) (outstanding d)) =
      filter is_KGCall (outstanding d)"
    by (simp add: filter_remove1 remove1_idem)
  from inv v k fetchVectorResponse_frame [of r elapsed "component d"] show ?thesis
    by (simp add: one_call_per_side_def d')
next
  case (KGSettled q t r elapsed)
  with st have c: "KGCall q t \<in> set (outstanding d)"
    and d': "d' = \<lparr>component = fetchKGResponse r elapsed (component d),
                   outstanding = remove1 (KGCall q t) (outstanding d)\<rparr>"
    by (auto split: if_splits)
  from c have cf: "KGCall q t \<in> set (filter is_KGCall (outstanding d))" by simp
  from c have "filter is_KGCall (outstanding d) \<noteq> []" by (rule filter_nonempty) simp
  with inv have "length (filter is_KGCall (outstanding d)) = 1"
    by (simp add: one_call_per_side_def)
  from remove1_single [OF cf this]
  have k: "filter is_KGCall (remove1 (KGCall q t) (outstanding d)) = []"
    by (simp only: filter_remove1)
  have v: "filter is_VectorCall (remove1 (KGCall q t) (outstanding d)) =
      filter is_VectorCall (outstanding d)"
    by (simp add: filter_remove1 remove1_idem)
  from inv v k fetchKGResponse_frame [of r elapsed "component d"] show ?thesis
    by (simp add: one_call_per_side_def d')
next
  case (SetVectorTab t)
  with st inv show ?thesis
    by (auto simp: one_call_per_side_def vectorPending_def kgPending_def)
next
  case (SetKGTab t)
  with st inv show ?thesis
    by (auto simp: one_call_per_side_def vectorPending_def kgPending_def)
qed

lemma one_call_per_side_run:
  assumes "unsuperseded d es" "one_call_per_side d" "run d es = Some d'"
  shows "one_call_per_side d'"
  using assms
proof (induction es arbitrary: d)
  case Nil
  then show ?case by simp
next
  case (Cons e es)
  from Cons.prems(3) obtain d1 where d1: "step d e = Some d1" "run d1 es = Some d'"
    by (auto split: option.splits)
  from Cons.prems(1) d1 have u: "unsuperseded d1 es"
    and nq: "is_NewQuery e \<longrightarrow> outstanding d = []"
    by (auto split: event.splits)
  from one_call_per_side_step [OF Cons.prems(2) d1(1) nq] have "one_call_per_side d1" .
  with Cons.IH u d1 show ?case by blast
qed

text \<open>Only a new query and a settling call of a side write to that side.\<close>

lemma vector_side_frame:
  assumes "step d e = Some d'" "\<not> is_NewQuery e" "filter is_VectorCall (outstanding d) = []"
  shows "vectorSide (component d') = vectorSide (component d)"
proof (cases e)
  case (VectorSettled q t r elapsed)
  with assms(1) vector_call_none [OF assms(3), of q t] show ?thesis by simp
next
  case (KGSettled q t r elapsed)
  with assms(1) have "component d' = fetchKGResponse r elapsed (component d)"
    by (auto split: if_splits)
  then show ?thesis using fetchKGResponse_frame [of r elapsed "component d"] by simp
qed (use assms in \<open>auto simp: vectorSide_def\<close>)

lemma kg_side_frame:
  assumes "step d e = Some d'" "\<not> is_NewQuery e" "filter is_KGCall (outstanding d) = []"
  shows "kgSide (component d') = kgSide (component d)"
proof (cases e)
  case (KGSettled q t r elapsed)
  with assms(1) kg_call_none [OF assms(3), of q t] show ?thesis by simp
next
  case (VectorSettled q t r elapsed)
  with assms(1) have "component d' = fetchVectorResponse r elapsed (component d)"
    by (auto split: if_splits)
  then show ?thesis using fetchVectorResponse_frame [of r elapsed "component d"] by simp
qed (use assms in \<open>auto simp: kgSide_def\<close>)

lemma vectorPending_side:
  assumes "vectorSide s' = vectorSide s"
  shows "vectorPending s' = vectorPending s"
  using assms by (simp add: vectorSide_def vectorPending_def)

lemma kgPending_side:
  assumes "kgSide s' = kgSide s"
  shows "kgPending s' = kgPending s"
  using assms by (simp add: kgSide_def kgPending_def)

text \<open>
  C4, amended. Take any state and any event other than a new query. If no call of a
  side is outstanding, the event leaves that side's response, error and time as they
  are. So in every state where each side has at most one outstanding call, and only
  while it is pending, a side that has reached Success or Failure is not changed by
  the event and does not return to pending. These are the states of every run in which
  no query is submitted while a call is outstanding, from the mounted component or
  from any later state in which all calls have settled.
\<close>

theorem resolved_side_stays:
  assumes "step d e = Some d'" "\<not> is_NewQuery e"
  shows "(filter is_VectorCall (outstanding d) = [] \<longrightarrow>
            vectorSide (component d') = vectorSide (component d)) \<and>
         (filter is_KGCall (outstanding d) = [] \<longrightarrow>
            kgSide (component d') = kgSide (component d)) \<and>
         (one_call_per_side d \<and> \<not> vectorPending (component d) \<longrightarrow>
            vectorSide (component d') = vectorSide (component d) \<and>
            \<not> vectorPending (component d')) \<and>
         (one_call_per_side d \<and> \<not> kgPending (component d) \<longrightarrow>
            kgSide (component d') = kgSide (component d) \<and>
            \<not> kgPending (component d'))"
proof (intro conjI impI)
  show "vectorSide (component d') = vectorSide (component d)"
    if "filter is_VectorCall (outstanding d) = []"
    using vector_side_frame [OF assms that] .
  show "kgSide (component d') = kgSide (component d)"
    if "filter is_KGCall (outstanding d) = []"
    using kg_side_frame [OF assms that] .
next
  assume a: "one_call_per_side d \<and> \<not> vectorPending (component d)"
  then have "filter is_VectorCall (outstanding d) = []"
    by (auto simp: one_call_per_side_def)
  from vector_side_frame [OF assms this]
  show v: "vectorSide (component d') = vectorSide (component d)" .
  from vectorPending_side [OF v] a show "\<not> vectorPending (component d')" by simp
next
  assume a: "one_call_per_side d \<and> \<not> kgPending (component d)"
  then have "filter is_KGCall (outstanding d) = []"
    by (auto simp: one_call_per_side_def)
  from kg_side_frame [OF assms this]
  show k: "kgSide (component d') = kgSide (component d)" .
  from kgPending_side [OF k] a show "\<not> kgPending (component d')" by simp
qed

theorem resolved_side_stays_witness:
  "step vector_done (KGSettled q1 0 (Responded 200 (Inr (kg_data q1))) 120) =
     Some \<lparr>component = fetchKGResponse (Responded 200 (Inr (kg_data q1))) 120
                          (component vector_done),
           outstanding = []\<rparr> \<and>
   \<not> is_NewQuery (KGSettled q1 0 (Responded 200 (Inr (kg_data q1))) 120) \<and>
   filter is_VectorCall (outstanding vector_done) = [] \<and>
   one_call_per_side vector_done \<and>
   \<not> vectorPending (component vector_done) \<and>
   vectorSide (fetchKGResponse (Responded 200 (Inr (kg_data q1))) 120 (component vector_done)) =
     (vector_data q1, None, Some 50) \<and>
   \<not> vectorPending (fetchKGResponse (Responded 200 (Inr (kg_data q1))) 120 (component vector_done)) \<and>
   step kg_done (VectorSettled q1 0 (Responded 500 (Inr JNull)) 130) =
     Some \<lparr>component = fetchVectorResponse (Responded 500 (Inr JNull)) 130 (component kg_done),
           outstanding = []\<rparr> \<and>
   \<not> is_NewQuery (VectorSettled q1 0 (Responded 500 (Inr JNull)) 130) \<and>
   filter is_KGCall (outstanding kg_done) = [] \<and>
   one_call_per_side kg_done \<and>
   \<not> kgPending (component kg_done) \<and>
   kgSide (fetchVectorResponse (Responded 500 (Inr JNull)) 130 (component kg_done)) =
     (kg_data q1, None, Some 120) \<and>
   \<not> kgPending (fetchVectorResponse (Responded 500 (Inr JNull)) 130 (component kg_done))"
proof -
  have s: "step vector_done (KGSettled q1 0 (Responded 200 (Inr (kg_data q1))) 120) =
     Some \<lparr>component = fetchKGResponse (Responded 200 (Inr (kg_data q1))) 120
                          (component vector_done),
           outstanding = []\<rparr>"
    by (simp add: vector_done_def)
  have n: "\<not> is_NewQuery (KGSettled q1 0 (Responded 200 (Inr (kg_data q1))) 120)"
    by simp
  have f: "filter is_VectorCall (outstanding vector_done) = []"
    by (simp add: vector_done_def)
  have p: "\<not> vectorPending (component vector_done)"
    by (simp add: vector_done_def vectorPending_def fetchVectorResponse_def response_ok_def
        vector_data_truthy)
  have i: "one_call_per_side vector_done"
    by (simp add: one_call_per_side_def vector_done_def kgPending_def truthy_error_def
        fetchVectorResponse_def response_ok_def handleQuery_def)
  have v: "vectorSide (component vector_done) = (vector_data q1, None, Some 50)"
    by (simp add: vector_done_def vectorSide_def fetchVectorResponse_def response_ok_def
        handleQuery_def initial_def)
  have s': "step kg_done (VectorSettled q1 0 (Responded 500 (Inr JNull)) 130) =
     Some \<lparr>component = fetchVectorResponse (Responded 500 (Inr JNull)) 130 (component kg_done),
           outstanding = []\<rparr>"
    by (simp add: kg_done_def)
  have n': "\<not> is_NewQuery (VectorSettled q1 0 (Responded 500 (Inr JNull)) 130)"
    by simp
  have f': "filter is_KGCall (outstanding kg_done) = []"
    by (simp add: kg_done_def)
  have p': "\<not> kgPending (component kg_done)"
    by (simp add: kg_done_def kgPending_def fetchKGResponse_def response_ok_def
        kg_data_truthy)
  have i': "one_call_per_side kg_done"
    by (simp add: one_call_per_side_def kg_done_def vectorPending_def truthy_error_def
        fetchKGResponse_def response_ok_def handleQuery_def)
  have k: "kgSide (component kg_done) = (kg_data q1, None, Some 120)"
    by (simp add: kg_done_def kgSide_def fetchKGResponse_def response_ok_def
        handleQuery_def initial_def)
  show ?thesis
    using resolved_side_stays [OF s n] resolved_side_stays [OF s' n'] s n f p i v s' n' f' p' i' k
    by simp
qed

end
